theory Spec2Isabelle
  imports Complex_Main "HOL-Library.Word"
begin

section \<open>The headless bot: data model\<close>

text \<open>
  The program is \<^verbatim>\<open>cmd/headless/bot.go\<close>. Its state is the package-level map
  \<^verbatim>\<open>players\<close> and the flag \<^verbatim>\<open>loopRunning\<close>; everything else it does is a call
  into a library (the logger, the connection, the vector type of \<^verbatim>\<open>mgl32\<close>, the
  translation tables of \<^verbatim>\<open>lang\<close>). Library calls whose result the program reads are
  parameters of the model; library calls made for their effect are recorded, in order,
  in the value the model returns.
\<close>

subsection \<open>Vectors\<close>

text \<open>
  \<^verbatim>\<open>mgl32.Vec3\<close> is \<^verbatim>\<open>[3]float32\<close>. The scalar type is the type variable \<open>'f\<close>;
  float32 addition and \<^verbatim>\<open>mgl32.FloatEqual\<close> are fields of the record of library
  functions below. \<^verbatim>\<open>Vec3.Add\<close> adds the three components, \<^verbatim>\<open>Vec3.ApproxEqual\<close>
  asks \<^verbatim>\<open>FloatEqual\<close> of each pair of components.
\<close>

datatype 'f Vec3 = Vec3 'f 'f 'f

subsection \<open>Library functions and constants the program reads\<close>

record 'f lib =
  FloatAdd :: "'f \<Rightarrow> 'f \<Rightarrow> 'f"
  FloatEqual :: "'f \<Rightarrow> 'f \<Rightarrow> bool"
  FormatString :: "string \<Rightarrow> string \<Rightarrow> string"
  GetString :: "string \<Rightarrow> string \<Rightarrow> string"
  Sprintf :: "string \<Rightarrow> string list \<Rightarrow> string"
  ANSI :: "string \<Rightarrow> string"
  TextTypeObjectWhisper :: "8 word"
  EventTypePlayerDied :: "8 word"

fun Add :: "'f lib \<Rightarrow> 'f Vec3 \<Rightarrow> 'f Vec3 \<Rightarrow> 'f Vec3" where
  "Add L (Vec3 a0 a1 a2) (Vec3 b0 b1 b2) =
     Vec3 (FloatAdd L a0 b0) (FloatAdd L a1 b1) (FloatAdd L a2 b2)"

fun ApproxEqual :: "'f lib \<Rightarrow> 'f Vec3 \<Rightarrow> 'f Vec3 \<Rightarrow> bool" where
  "ApproxEqual L (Vec3 a0 a1 a2) (Vec3 b0 b1 b2) =
     (FloatEqual L a0 b0 \<and> FloatEqual L a1 b1 \<and> FloatEqual L a2 b2)"

subsection \<open>Players and the registry\<close>

text \<open>
  \<^verbatim>\<open>EntityGlobalID\<close> is an \<^verbatim>\<open>int64\<close>: a 64-bit word read as signed. The registry
  \<^verbatim>\<open>players\<close> is a Go map from \<^verbatim>\<open>uint64\<close> to \<^verbatim>\<open>*Player\<close>. Every pointer stored in it
  comes from a fresh \<^verbatim>\<open>&Player{...}\<close> and no other variable keeps one, so the map is
  modelled as a map to the records themselves, and an assignment through the pointer
  as an update of the map at that key.
\<close>

record 'f Player =
  Username :: string
  EntityRuntimeID :: "64 word"
  EntityGlobalID :: "64 word"
  Position :: "'f Vec3"

type_synonym 'f registry = "64 word \<rightharpoonup> 'f Player"

subsection \<open>Packets\<close>

text \<open>
  \<^verbatim>\<open>packet.Packet\<close> is an interface; \<^verbatim>\<open>handlePacket\<close> switches on \<^verbatim>\<open>pk.ID()\<close> and
  asserts the matching type. Each packet type of the library has one fixed ID, so a
  packet is a value of a datatype with one constructor per ID the switch names, and
  one for every other ID. Only the fields \<^verbatim>\<open>handlePacket\<close> reads are kept, in the order
  given here:
  \<^item> \<open>Text\<close>: TextType, NeedsTranslation, SourceName, Message, Parameters;
  \<^item> \<open>PlayerList\<close>: Entries, each (Username, EntityUniqueID);
  \<^item> \<open>RemoveEntity\<close>: EntityNetworkID;
  \<^item> \<open>AddPlayer\<close>: Username, EntityRuntimeID, EntityUniqueID, Position;
  \<^item> \<open>ActorEvent\<close>: EntityRuntimeID, EventType;
  \<^item> \<open>MovePlayer\<close>, \<open>MoveActorAbsolute\<close>, \<open>MoveActorDelta\<close>: EntityRuntimeID, Position.
  A nil interface value is \<open>None\<close>.
\<close>

datatype 'f packet =
    Text "8 word" bool string string "string list"
  | PlayerList "(string \<times> 64 word) list"
  | RemoveEntity "64 word"
  | AddPlayer string "64 word" "64 word" "'f Vec3"
  | ActorEvent "64 word" "8 word"
  | MovePlayer "64 word" "'f Vec3"
  | MoveActorAbsolute "64 word" "'f Vec3"
  | MoveActorDelta "64 word" "'f Vec3"
  | OtherPacket

subsection \<open>Log lines\<close>

text \<open>
  A call of the logger is recorded with its level, its format string and its
  arguments; the formatting itself is the library's.
\<close>

datatype go_error = DisconnectError string | WrappedError string go_error | OtherError string

datatype log_level = DebugLevel | InfoLevel | WarnLevel | ErrorLevel | FatalLevel

datatype 'f log_arg =
    ArgString string
  | ArgUint64 "64 word"
  | ArgInt64 "64 word"
  | ArgLen nat
  | ArgVec3 "'f Vec3"
  | ArgError go_error

datatype 'f log_entry = LogEntry log_level string "'f log_arg list"

section \<open>The dispatcher\<close>

text \<open>
  \<^verbatim>\<open>handlePacket(conn, pk)\<close> never uses \<^verbatim>\<open>conn\<close>. It reads and writes \<^verbatim>\<open>players\<close> and
  calls the logger: the model takes the registry and returns the new registry with the
  log calls made, in order. No branch returns an error or panics: every map read is
  guarded by its \<^verbatim>\<open>ok\<close>, and the only values ever stored are non-nil.
\<close>

fun handlePacket :: "'f lib \<Rightarrow> 'f registry \<Rightarrow> 'f packet option \<Rightarrow> 'f registry \<times> 'f log_entry list" where
  "handlePacket L players None = (players, [])"
| "handlePacket L players (Some (Text textType needsTranslation sourceName message parameters)) =
     (if textType \<noteq> TextTypeObjectWhisper L then
        (let message' =
           (if needsTranslation
            then Sprintf L (FormatString L ''ptbr'' message) (map (GetString L ''ptbr'') parameters)
            else message)
         in (players, [LogEntry InfoLevel ''%s> %s\<newline>'' [ArgString sourceName, ArgString (ANSI L message')]]))
      else (players, []))"
| "handlePacket L players (Some (PlayerList entries)) =
     (players,
      LogEntry InfoLevel ''Received player list with %d players\<newline>'' [ArgLen (length entries)]
      # map (\<lambda>(username, entityUniqueID).
              LogEntry InfoLevel ''User: %s EntityID: %d\<newline>'' [ArgString username, ArgInt64 entityUniqueID])
            entries)"
| "handlePacket L players (Some (RemoveEntity entityNetworkID)) =
     (case players entityNetworkID of
        Some player \<Rightarrow>
          (players(entityNetworkID := None),
           [LogEntry InfoLevel ''Player %s went of range\<newline>'' [ArgString (Username player)]])
      | None \<Rightarrow> (players, []))"
| "handlePacket L players (Some (AddPlayer username entityRuntimeID entityUniqueID position)) =
     (players(entityRuntimeID \<mapsto>
        \<lparr>Username = username, EntityRuntimeID = entityRuntimeID,
         EntityGlobalID = entityUniqueID, Position = position\<rparr>),
      [LogEntry InfoLevel ''Player %s added to %s\<newline>'' [ArgString username, ArgVec3 position]])"
| "handlePacket L players (Some (ActorEvent entityRuntimeID eventType)) =
     (if eventType = EventTypePlayerDied L then
        (players,
         LogEntry DebugLevel ''Entity %d died\<newline>'' [ArgUint64 entityRuntimeID]
         # (case players entityRuntimeID of
              Some player \<Rightarrow> [LogEntry WarnLevel ''Player %s died\<newline>'' [ArgString (Username player)]]
            | None \<Rightarrow> []))
      else (players, []))"
| "handlePacket L players (Some (MovePlayer entityRuntimeID position)) =
     (case players entityRuntimeID of
        Some player \<Rightarrow>
          (if \<not> ApproxEqual L (Position player) position
           then (players(entityRuntimeID \<mapsto> player\<lparr>Position := position\<rparr>), [])
           else (players, []))
      | None \<Rightarrow> (players, []))"
| "handlePacket L players (Some (MoveActorAbsolute entityRuntimeID position)) =
     (case players entityRuntimeID of
        Some player \<Rightarrow>
          (if \<not> ApproxEqual L (Position player) position
           then (players(entityRuntimeID \<mapsto> player\<lparr>Position := position\<rparr>), [])
           else (players, []))
      | None \<Rightarrow> (players, []))"
| "handlePacket L players (Some (MoveActorDelta entityRuntimeID position)) =
     (case players entityRuntimeID of
        Some player \<Rightarrow>
          (players(entityRuntimeID \<mapsto> player\<lparr>Position := Add L (Position player) position\<rparr>), [])
      | None \<Rightarrow> (players, []))"
| "handlePacket L players (Some OtherPacket) = (players, [])"

text \<open>
  The Receive Loop hands the packets to \<^verbatim>\<open>handlePacket\<close> one at a time, in the order
  read; \<open>handlePackets\<close> is that serial dispatch of a list of packets.
\<close>

fun handlePackets :: "'f lib \<Rightarrow> 'f registry \<Rightarrow> 'f packet option list \<Rightarrow> 'f registry \<times> 'f log_entry list" where
  "handlePackets L players [] = (players, [])"
| "handlePackets L players (pk # pks) =
     (case handlePacket L players pk of
        (players', out) \<Rightarrow>
          (case handlePackets L players' pks of
             (players'', out') \<Rightarrow> (players'', out @ out')))"

section \<open>The two loops and the supervisor\<close>

text \<open>
  Each task is modelled on its own, as the sequential program its function is. What a
  task does to the outside (log calls, sleeps, channel receives, calls on the
  connection and on the wait group, tasks started) is recorded in order in a list of
  effects; what it reads from the outside is an input: the results
  \<^verbatim>\<open>conn.ReadPacket\<close> returns, the values sent on the channel \<^verbatim>\<open>stop\<close>, the results of
  \<^verbatim>\<open>Dial\<close>. Durations are in milliseconds.
\<close>

datatype task = InterruptHandler | RxLoop nat | TxLoop nat

datatype 'f effect =
    Log "'f log_entry"
  | Sleep nat
  | NewTicker nat
  | TickerStop
  | RecvStop
  | ConnClose
  | WgAdd nat
  | WgDone
  | WgWait
  | Dial string
  | SignalNotify
  | Go task

text \<open>
  The shared state: the registry, the flag \<^verbatim>\<open>loopRunning\<close>, and the channel \<^verbatim>\<open>stop\<close>,
  held as the number of values that are or will be sent on it and have not been
  received yet. A receive from \<^verbatim>\<open>stop\<close> takes one of them; when there is none, and none
  will come, the receive never returns.
\<close>

record 'f world =
  players :: "'f registry"
  loopRunning :: bool
  stop :: nat
  effects :: "'f effect list"

text \<open>
  How a task ends: it returns, it panics with a value, or it stays blocked in a call
  that never returns. \<open>Exited\<close> is \<^verbatim>\<open>log.Fatalf\<close> ending the process, \<open>Waiting\<close> is
  \<^verbatim>\<open>main\<close> having reached \<^verbatim>\<open>wg.Wait()\<close>.
\<close>

datatype outcome = Returned | Panicked go_error | Blocked | Exited | Waiting

text \<open>
  Kinds of effects, for counting them in a run.
\<close>

fun is_error_log :: "'f effect \<Rightarrow> bool" where
  "is_error_log (Log (LogEntry ErrorLevel format args)) = True"
| "is_error_log e = False"

fun is_sleep :: "'f effect \<Rightarrow> bool" where
  "is_sleep (Sleep n) = True"
| "is_sleep e = False"

fun is_go :: "'f effect \<Rightarrow> bool" where
  "is_go (Go t) = True"
| "is_go e = False"

fun is_dial :: "'f effect \<Rightarrow> bool" where
  "is_dial (Dial address) = True"
| "is_dial e = False"

subsection \<open>Errors\<close>

text \<open>
  \<^verbatim>\<open>errors.Unwrap\<close> returns the wrapped error of an error that wraps one and nil
  otherwise; \<^verbatim>\<open>minecraft.DisconnectError\<close> is a string type and wraps nothing.
  \<open>asDisconnect\<close> is the expression
  \<^verbatim>\<open>errors.Unwrap(err).(minecraft.DisconnectError)\<close> with its \<^verbatim>\<open>ok\<close>: the text of the
  disconnect, or \<open>None\<close> when the assertion fails.
\<close>

fun Unwrap :: "go_error \<Rightarrow> go_error option" where
  "Unwrap (WrappedError msg inner) = Some inner"
| "Unwrap (DisconnectError msg) = None"
| "Unwrap (OtherError msg) = None"

definition asDisconnect :: "go_error \<Rightarrow> string option" where
  "asDisconnect err =
     (case Unwrap err of
        Some (DisconnectError disconnect) \<Rightarrow> Some disconnect
      | Some (WrappedError msg inner) \<Rightarrow> None
      | Some (OtherError msg) \<Rightarrow> None
      | None \<Rightarrow> None)"

subsection \<open>The Receive Loop\<close>

text \<open>
  \<open>rxLoop\<close> is the \<^verbatim>\<open>for\<close> of \<^verbatim>\<open>eventRxLoop\<close>, over the results \<^verbatim>\<open>conn.ReadPacket\<close>
  returns from now on: \<open>Inl err\<close> for a non-nil \<^verbatim>\<open>err\<close>, \<open>Inr pk\<close> otherwise. When the
  list is used up the next read never returns. \<open>eventRxLoop\<close> adds the log call before
  the loop and the deferred \<^verbatim>\<open>wg.Done()\<close>, which runs on return and on panic.
\<close>

fun rxLoop :: "'f lib \<Rightarrow> (go_error + 'f packet option) list \<Rightarrow> 'f world \<Rightarrow> outcome \<times> 'f world" where
  "rxLoop L [] w = (Blocked, w)"
| "rxLoop L (Inl err # reads) w =
     (case asDisconnect err of
        Some disconnect \<Rightarrow>
          (Panicked (DisconnectError disconnect),
           w\<lparr>effects := effects w @
                [Log (LogEntry ErrorLevel ''Disconnected: %s\<newline>'' [ArgString disconnect])]\<rparr>)
      | None \<Rightarrow> (Returned, w\<lparr>loopRunning := False\<rparr>))"
| "rxLoop L (Inr pk # reads) w =
     (case handlePacket L (players w) pk of
        (players', out) \<Rightarrow>
          rxLoop L reads (w\<lparr>players := players', effects := effects w @ map Log out\<rparr>))"

definition eventRxLoop :: "'f lib \<Rightarrow> (go_error + 'f packet option) list \<Rightarrow> 'f world \<Rightarrow> outcome \<times> 'f world" where
  "eventRxLoop L reads w =
     (case rxLoop L reads
             (w\<lparr>effects := effects w @ [Log (LogEntry InfoLevel ''RX Event loop started\<newline>'' [])]\<rparr>) of
        (Blocked, w') \<Rightarrow> (Blocked, w')
      | (out, w') \<Rightarrow> (out, w'\<lparr>effects := effects w' @ [WgDone]\<rparr>))"

subsection \<open>The Send/Heartbeat Loop\<close>

text \<open>
  \<open>txLoop\<close> is the \<^verbatim>\<open>for loopRunning\<close> of \<^verbatim>\<open>eventTxLoop\<close>. Its body sleeps 100 ms and
  then runs a \<^verbatim>\<open>select\<close> whose only case is the receive from \<^verbatim>\<open>stop\<close> (the case on the
  ticker is commented out, and there is no default): the \<^verbatim>\<open>select\<close> returns when a
  value is received and not before. \<open>eventTxLoop\<close> adds what comes before the loop and
  the two deferred calls, last deferred first.
\<close>

function txLoop :: "'f world \<Rightarrow> outcome \<times> 'f world" where
  "txLoop w =
     (if loopRunning w then
        (if stop w = 0 then (Blocked, w\<lparr>effects := effects w @ [Sleep 100]\<rparr>)
         else txLoop (w\<lparr>stop := stop w - 1,
                         loopRunning := False,
                         effects := effects w @
                           [Sleep 100, RecvStop,
                            Log (LogEntry InfoLevel ''closing event loop\<newline>'' []),
                            ConnClose]\<rparr>))
      else (Returned, w))"
  by pat_completeness auto
termination
  by (relation "measure (\<lambda>w. if loopRunning w then 1 else 0)") auto

definition eventTxLoop :: "'f world \<Rightarrow> outcome \<times> 'f world" where
  "eventTxLoop w =
     (case txLoop (w\<lparr>loopRunning := True,
                     effects := effects w @
                       [NewTicker 5000, Log (LogEntry InfoLevel ''TX Event loop started\<newline>'' [])]\<rparr>) of
        (Blocked, w') \<Rightarrow> (Blocked, w')
      | (out, w') \<Rightarrow> (out, w'\<lparr>effects := effects w' @ [TickerStop, WgDone]\<rparr>))"

subsection \<open>The Session Supervisor\<close>

text \<open>
  The results of the library calls \<^verbatim>\<open>main\<close> makes are its inputs: the remote address
  of the loaded configuration, the cached token, the requested token, the result of
  saving it, and the results of the calls of \<^verbatim>\<open>Dial\<close>, in order. A token and a
  connection are numbers naming them.
\<close>

record inputs =
  loadConfig :: "go_error + string"
  loadToken :: "go_error + nat"
  requestLiveToken :: "go_error + nat"
  saveToken :: "go_error option"
  dials :: "(go_error + nat) list"

text \<open>
  The token of \<^verbatim>\<open>main\<close>, or the fatal log line that ends the process.
\<close>

definition acquireToken :: "inputs \<Rightarrow> 'f log_entry + nat" where
  "acquireToken E =
     (case loadToken E of
        Inr tkn \<Rightarrow> Inr tkn
      | Inl err \<Rightarrow>
          (case requestLiveToken E of
             Inl err' \<Rightarrow> Inl (LogEntry FatalLevel ''error getting token: %s\<newline>'' [ArgError err'])
           | Inr tkn \<Rightarrow>
               (case saveToken E of
                  Some err' \<Rightarrow> Inl (LogEntry FatalLevel ''error saving token: %s\<newline>'' [ArgError err'])
                | None \<Rightarrow> Inr tkn)))"

text \<open>
  \<open>dialError\<close> is the log call of a failed \<^verbatim>\<open>Dial\<close>; \<open>dialLoop\<close> is the loop
  \<^verbatim>\<open>for !connected\<close>, over the results of the calls of \<^verbatim>\<open>Dial\<close>. When the list is used
  up the next call never returns.
\<close>

definition dialError :: "'f lib \<Rightarrow> go_error \<Rightarrow> 'f log_entry" where
  "dialError L err =
     (case asDisconnect err of
        Some disconnect \<Rightarrow>
          LogEntry ErrorLevel ''Disconnected: %s\<newline>'' [ArgString (GetString L ''ptbr'' disconnect)]
      | None \<Rightarrow> LogEntry ErrorLevel ''Error handling connection: %s\<newline>'' [ArgError err])"

fun dialLoop :: "'f lib \<Rightarrow> string \<Rightarrow> (go_error + nat) list \<Rightarrow> nat option \<times> 'f effect list" where
  "dialLoop L address [] = (None, [Dial address])"
| "dialLoop L address (Inr conn # ds) = (Some conn, [Dial address])"
| "dialLoop L address (Inl err # ds) =
     (case dialLoop L address ds of
        (r, es) \<Rightarrow> (r, [Dial address, Log (dialError L err), Sleep 1000] @ es))"

text \<open>
  The effects of one failed attempt: the call, the log line, the sleep of one second.
\<close>

definition attempt :: "'f lib \<Rightarrow> string \<Rightarrow> go_error \<Rightarrow> 'f effect list" where
  "attempt L address err = [Dial address, Log (dialError L err), Sleep 1000]"

text \<open>
  \<^verbatim>\<open>main\<close> up to its \<^verbatim>\<open>wg.Wait()\<close>: what happens after it depends on the tasks started.
\<close>

definition main :: "'f lib \<Rightarrow> inputs \<Rightarrow> outcome \<times> 'f effect list" where
  "main L E =
     (case loadConfig E of
        Inl err \<Rightarrow>
          (Exited,
           [Log (LogEntry InfoLevel ''Loading configuration\<newline>'' []),
            Log (LogEntry FatalLevel ''error loading config: %s\<newline>'' [ArgError err])])
      | Inr address \<Rightarrow>
          (case acquireToken E of
             Inl fatal \<Rightarrow>
               (Exited,
                [Log (LogEntry InfoLevel ''Loading configuration\<newline>'' []),
                 Log (LogEntry InfoLevel ''Loading Xbox Token\<newline>'' []),
                 Log fatal])
           | Inr tkn \<Rightarrow>
               (case dialLoop L address (dials E) of
                  (None, es) \<Rightarrow>
                    (Blocked,
                     [Log (LogEntry InfoLevel ''Loading configuration\<newline>'' []),
                      Log (LogEntry InfoLevel ''Loading Xbox Token\<newline>'' []),
                      Log (LogEntry InfoLevel ''Connecting to %s\<newline>'' [ArgString address])] @ es)
                | (Some conn, es) \<Rightarrow>
                    (Waiting,
                     [Log (LogEntry InfoLevel ''Loading configuration\<newline>'' []),
                      Log (LogEntry InfoLevel ''Loading Xbox Token\<newline>'' []),
                      Log (LogEntry InfoLevel ''Connecting to %s\<newline>'' [ArgString address])] @ es @
                     [WgAdd 2, SignalNotify, Go InterruptHandler,
                      Log (LogEntry InfoLevel ''Bot started and connected\<newline>'' []),
                      Go (RxLoop conn), Go (TxLoop conn), WgWait]))))"

section \<open>What the specification says of a replay\<close>

text \<open>
  The specification describes the registry after a sequence of messages without
  running the dispatcher: the entities are those whose last add was not followed by a
  remove, each with the name and global identifier of its last add and the position
  obtained from that add's position by applying every later move and delta-move for
  its identifier, in order.

  \<open>last_add i ms\<close> is the last add for \<open>i\<close> in \<open>ms\<close>: its name, global identifier and
  position, and the messages after it.
\<close>

fun last_add :: "64 word \<Rightarrow> 'f packet list \<Rightarrow> (string \<times> 64 word \<times> 'f Vec3 \<times> 'f packet list) option" where
  "last_add i [] = None"
| "last_add i (m # ms) =
     (case last_add i ms of
        Some r \<Rightarrow> Some r
      | None \<Rightarrow>
          (case m of
             AddPlayer username rid uid pos \<Rightarrow> if rid = i then Some (username, uid, pos, ms) else None
           | _ \<Rightarrow> None))"

text \<open>
  \<open>replayed move ms\<close> is the registry so described, for a given reading \<open>move i m P\<close> of
  "the position after applying message \<open>m\<close> to the entity \<open>i\<close> at position \<open>P\<close>".
\<close>

definition replayed :: "(64 word \<Rightarrow> 'f packet \<Rightarrow> 'f Vec3 \<Rightarrow> 'f Vec3) \<Rightarrow> 'f packet list \<Rightarrow> 'f registry" where
  "replayed move ms =
     (\<lambda>i. case last_add i ms of
            None \<Rightarrow> None
          | Some (username, uid, pos, rest) \<Rightarrow>
              if RemoveEntity i \<in> set rest then None
              else Some \<lparr>Username = username, EntityRuntimeID = i, EntityGlobalID = uid,
                         Position = fold (move i) rest pos\<rparr>)"

text \<open>
  The specification's operations: \<^verbatim>\<open>move(id, position)\<close> replaces the position,
  \<^verbatim>\<open>moveDelta(id, deltaVector)\<close> adds the delta to it. Both absolute move messages are
  moves.
\<close>

fun spec_move :: "'f lib \<Rightarrow> 64 word \<Rightarrow> 'f packet \<Rightarrow> 'f Vec3 \<Rightarrow> 'f Vec3" where
  "spec_move L i (MovePlayer rid pos) P = (if rid = i then pos else P)"
| "spec_move L i (MoveActorAbsolute rid pos) P = (if rid = i then pos else P)"
| "spec_move L i (MoveActorDelta rid d) P = (if rid = i then Add L P d else P)"
| "spec_move L i m P = P"

text \<open>
  The same with the guard of the code: an absolute move replaces the position when the
  new reading is not approximately equal to it, and keeps it otherwise.
\<close>

fun guarded_move :: "'f lib \<Rightarrow> 64 word \<Rightarrow> 'f packet \<Rightarrow> 'f Vec3 \<Rightarrow> 'f Vec3" where
  "guarded_move L i (MovePlayer rid pos) P = (if rid = i \<and> \<not> ApproxEqual L P pos then pos else P)"
| "guarded_move L i (MoveActorAbsolute rid pos) P = (if rid = i \<and> \<not> ApproxEqual L P pos then pos else P)"
| "guarded_move L i (MoveActorDelta rid d) P = (if rid = i then Add L P d else P)"
| "guarded_move L i m P = P"

section \<open>An instance of the library\<close>

text \<open>
  Closed examples need the library parameters instantiated. \<open>exact_lib\<close> takes the
  rationals for the scalars, exact addition for \<^verbatim>\<open>+\<close>, and for \<^verbatim>\<open>mgl32.FloatEqual\<close> the
  text of the library's \<^verbatim>\<open>FloatEqualThreshold(a, b, Epsilon)\<close> read over the rationals:
  \<^verbatim>\<open>
  if a == b { return true }
  diff := Abs(a - b)
  if a*b == 0 || diff < MinNormal { return diff < epsilon*epsilon }
  return diff/(Abs(a)+Abs(b)) < epsilon
  \<close>
  with \<^verbatim>\<open>Epsilon = 1e-10\<close> and \<^verbatim>\<open>MinNormal\<close> the least normal float32, \<open>2 ^ -126\<close>.
  The examples below use only the scalars \<open>0\<close>, small integers and \<open>1 / 2 ^ 100\<close>. All
  of them are float32 values, and on them every float32 operation of this text is
  exact, apart from \<^verbatim>\<open>epsilon*epsilon\<close>, whose rounding error is far too small to move
  it across \<open>1 / 2 ^ 100\<close>. The translation functions are the identity.
\<close>

definition Epsilon :: rat where
  "Epsilon = 1 / 10 ^ 10"

definition MinNormal :: rat where
  "MinNormal = 1 / 2 ^ 126"

definition FloatEqualThreshold :: "rat \<Rightarrow> rat \<Rightarrow> rat \<Rightarrow> bool" where
  "FloatEqualThreshold a b epsilon =
     (if a = b then True
      else (let diff = \<bar>a - b\<bar> in
            if a * b = 0 \<or> diff < MinNormal then diff < epsilon * epsilon
            else diff / (\<bar>a\<bar> + \<bar>b\<bar>) < epsilon))"

definition exact_lib :: "rat lib" where
  "exact_lib =
     \<lparr>FloatAdd = (+),
      FloatEqual = (\<lambda>a b. FloatEqualThreshold a b Epsilon),
      FormatString = (\<lambda>locale s. s),
      GetString = (\<lambda>locale s. s),
      Sprintf = (\<lambda>format args. format),
      ANSI = (\<lambda>s. s),
      TextTypeObjectWhisper = 9,
      EventTypePlayerDied = 6\<rparr>"

definition alice :: "rat Player" where
  "alice = \<lparr>Username = ''Alice'', EntityRuntimeID = 1, EntityGlobalID = 10, Position = Vec3 0 0 0\<rparr>"

text \<open>
  A position that differs from the origin and is approximately equal to it.
\<close>

definition nearby :: "rat Vec3" where
  "nearby = Vec3 (1 / 2 ^ 100) 0 0"

text \<open>
  A state before the loops start, and inputs of \<^verbatim>\<open>main\<close> with a cached token and two
  failed calls of \<^verbatim>\<open>Dial\<close> before one that succeeds.
\<close>

definition world0 :: "rat world" where
  "world0 = \<lparr>players = Map.empty, loopRunning = False, stop = 0, effects = []\<rparr>"

definition inputs0 :: inputs where
  "inputs0 =
     \<lparr>loadConfig = Inr ''play.example.org:19132'',
      loadToken = Inr 7,
      requestLiveToken = Inl (OtherError ''not asked''),
      saveToken = None,
      dials = [Inl (WrappedError ''dial'' (DisconnectError ''disconnectionScreen.serverFull'')),
               Inl (OtherError ''timeout''),
               Inr 3]\<rparr>"

section \<open>Facts about the instance\<close>

lemma ApproxEqual_nearby: "ApproxEqual exact_lib (Vec3 0 0 0) nearby"
  by (simp add: nearby_def exact_lib_def FloatEqualThreshold_def Epsilon_def MinNormal_def)

lemma nearby_neq: "nearby \<noteq> Vec3 0 0 0"
  by (simp add: nearby_def)

lemma Position_alice: "Position alice = Vec3 0 0 0"
  by (simp add: alice_def)

lemma FloatAdd_exact_lib: "FloatAdd exact_lib = (+)"
  by (simp add: exact_lib_def)

lemma not_ApproxEqual_step: "\<not> ApproxEqual exact_lib (Vec3 0 0 0) (Vec3 1 0 0)"
  by (simp add: exact_lib_def FloatEqualThreshold_def Epsilon_def MinNormal_def)

section \<open>Properties of the dispatcher\<close>

text \<open>
  C10. Dispatching a nil message is a no-op: for every registry the dispatcher returns
  the registry as it was and makes no log call. The nil case is the first equation of
  the dispatcher, not a dereference.
\<close>

theorem handlePacket_nil: "handlePacket L reg None = (reg, [])"
  by simp

text \<open>
  C4. A move (of either kind), a delta-move or a remove whose runtime identifier is
  not in the registry leaves the registry as it was and makes no log call; the
  dispatcher has no error result.
\<close>

theorem handlePacket_unknown_id:
  assumes "reg i = None"
  shows "handlePacket L reg (Some (MovePlayer i pos)) = (reg, [])
       \<and> handlePacket L reg (Some (MoveActorAbsolute i pos)) = (reg, [])
       \<and> handlePacket L reg (Some (MoveActorDelta i pos)) = (reg, [])
       \<and> handlePacket L reg (Some (RemoveEntity i)) = (reg, [])"
  using assms by simp

theorem handlePacket_unknown_id_witness:
  "[1 \<mapsto> alice] (99 :: 64 word) = None
   \<and> handlePacket exact_lib [1 \<mapsto> alice] (Some (MovePlayer 99 (Vec3 1 0 0))) = ([1 \<mapsto> alice], [])
   \<and> handlePacket exact_lib [1 \<mapsto> alice] (Some (MoveActorAbsolute 99 (Vec3 1 0 0))) = ([1 \<mapsto> alice], [])
   \<and> handlePacket exact_lib [1 \<mapsto> alice] (Some (MoveActorDelta 99 (Vec3 1 0 0))) = ([1 \<mapsto> alice], [])
   \<and> handlePacket exact_lib [1 \<mapsto> alice] (Some (RemoveEntity 99)) = ([1 \<mapsto> alice], [])"
proof -
  have h: "[1 \<mapsto> alice] (99 :: 64 word) = None" by simp
  from h show ?thesis
    using handlePacket_unknown_id [of "[1 \<mapsto> alice]" 99 exact_lib "Vec3 1 0 0"] by blast
qed

text \<open>
  C3. A delta-move for an entity in the registry at position \<open>(p0, p1, p2)\<close>, with delta
  \<open>(d0, d1, d2)\<close>, stores the entity with the position whose components are the sums
  \<open>p0 + d0\<close>, \<open>p1 + d1\<close>, \<open>p2 + d2\<close> (float32 sums), changes nothing else and makes no
  log call.
\<close>

theorem handlePacket_delta:
  assumes "reg i = Some p" and "Position p = Vec3 p0 p1 p2"
  shows "handlePacket L reg (Some (MoveActorDelta i (Vec3 d0 d1 d2))) =
           (reg(i \<mapsto> p\<lparr>Position := Vec3 (FloatAdd L p0 d0) (FloatAdd L p1 d1) (FloatAdd L p2 d2)\<rparr>), [])"
  using assms by simp

theorem handlePacket_delta_witness:
  "[1 \<mapsto> alice] (1 :: 64 word) = Some alice
   \<and> Position alice = Vec3 0 0 0
   \<and> handlePacket exact_lib [1 \<mapsto> alice] (Some (MoveActorDelta 1 (Vec3 0 1 2))) =
       ([1 \<mapsto> alice\<lparr>Position := Vec3 0 1 2\<rparr>], [])"
proof -
  have h1: "[1 \<mapsto> alice] (1 :: 64 word) = Some alice"
    by simp
  from h1 Position_alice show ?thesis
    using handlePacket_delta [of "[1 \<mapsto> alice]" 1 alice 0 0 0 exact_lib 0 1 2]
    by (simp add: FloatAdd_exact_lib)
qed

text \<open>
  C2, as the specification states it: an absolute move whose new position is
  approximately equal to the stored one makes no log call and still stores the new
  reading. The code does not store it. With Alice at the origin and a move to
  \<open>nearby\<close>, which is approximately equal to the origin and differs from it, the
  position stored afterwards is the origin.
\<close>

theorem move_within_epsilon_counterexample:
  "[1 \<mapsto> alice] (1 :: 64 word) = Some alice
   \<and> ApproxEqual exact_lib (Position alice) nearby
   \<and> map_option Position (fst (handlePacket exact_lib [1 \<mapsto> alice] (Some (MoveActorAbsolute 1 nearby))) 1) =
       Some (Vec3 0 0 0)
   \<and> nearby \<noteq> Vec3 0 0 0"
  using ApproxEqual_nearby nearby_neq by (simp add: Position_alice)

text \<open>
  C2, amended: an absolute move (of either kind) for an entity in the registry whose
  new position is approximately equal to the stored one makes no log call and leaves
  the registry as it was: the stored position is kept and the new reading is dropped.
\<close>

theorem move_within_epsilon:
  assumes "reg i = Some p" and "ApproxEqual L (Position p) pos"
  shows "handlePacket L reg (Some (MoveActorAbsolute i pos)) = (reg, [])
       \<and> handlePacket L reg (Some (MovePlayer i pos)) = (reg, [])"
  using assms by simp

theorem move_within_epsilon_witness:
  "[1 \<mapsto> alice] (1 :: 64 word) = Some alice
   \<and> ApproxEqual exact_lib (Position alice) nearby
   \<and> handlePacket exact_lib [1 \<mapsto> alice] (Some (MoveActorAbsolute 1 nearby)) = ([1 \<mapsto> alice], [])
   \<and> handlePacket exact_lib [1 \<mapsto> alice] (Some (MovePlayer 1 nearby)) = ([1 \<mapsto> alice], [])"
proof -
  have h1: "[1 \<mapsto> alice] (1 :: 64 word) = Some alice" by simp
  have h2: "ApproxEqual exact_lib (Position alice) nearby"
    using ApproxEqual_nearby by (simp add: Position_alice)
  from h1 h2 show ?thesis
    using move_within_epsilon [of "[1 \<mapsto> alice]" 1 alice exact_lib nearby] by blast
qed

section \<open>Replaying a sequence of messages\<close>

lemma handlePackets_append:
  "handlePackets L reg (xs @ ys) =
     (case handlePackets L reg xs of
        (reg', out) \<Rightarrow>
          (case handlePackets L reg' ys of (reg'', out') \<Rightarrow> (reg'', out @ out')))"
  by (induction xs arbitrary: reg) (auto split: prod.splits)

lemma handlePackets_snoc:
  "fst (handlePackets L reg (xs @ [x])) = fst (handlePacket L (fst (handlePackets L reg xs)) x)"
  by (simp add: handlePackets_append split: prod.splits)

lemma last_add_snoc:
  "last_add i (ms @ [m]) =
     (case m of
        AddPlayer username rid uid pos \<Rightarrow>
          if rid = i then Some (username, uid, pos, [])
          else map_option (\<lambda>(u, g, p, rest). (u, g, p, rest @ [m])) (last_add i ms)
      | _ \<Rightarrow> map_option (\<lambda>(u, g, p, rest). (u, g, p, rest @ [m])) (last_add i ms))"
  by (induction ms) (auto split: option.splits packet.splits)

lemma handlePacket_replayed:
  "fst (handlePacket L (replayed (guarded_move L) ms) (Some m)) = replayed (guarded_move L) (ms @ [m])"
proof (rule ext)
  fix i
  show "fst (handlePacket L (replayed (guarded_move L) ms) (Some m)) i = replayed (guarded_move L) (ms @ [m]) i"
    by (cases m) (auto simp: replayed_def last_add_snoc split: option.splits)
qed

text \<open>
  C1, as the specification states it: after any sequence of messages dispatched from
  the empty registry, the registry is the one the specification describes, where a
  move replaces the position. The code differs after an add of Alice at the origin
  followed by a move to \<open>nearby\<close>: the specification's registry has Alice at \<open>nearby\<close>,
  the dispatcher's has her at the origin.
\<close>

theorem replay_counterexample:
  "fst (handlePackets exact_lib Map.empty
          (map Some [AddPlayer ''Alice'' 1 10 (Vec3 0 0 0), MoveActorAbsolute 1 nearby])) 1 = Some alice
   \<and> replayed (spec_move exact_lib) [AddPlayer ''Alice'' 1 10 (Vec3 0 0 0), MoveActorAbsolute 1 nearby] 1 =
       Some (alice\<lparr>Position := nearby\<rparr>)
   \<and> alice\<lparr>Position := nearby\<rparr> \<noteq> alice"
  using ApproxEqual_nearby nearby_neq by (simp add: replayed_def alice_def)

text \<open>
  C1, amended: after any sequence of messages dispatched from the empty registry, the
  registry holds exactly the runtime identifiers whose last add was not followed by a
  remove, each with the name and global identifier of its last add and the position
  obtained from that add's position by applying, in order, every later move and
  delta-move for the identifier, where a move replaces the position unless the new
  reading is approximately equal to it and a delta-move adds its vector.
\<close>

theorem replay_guarded:
  "fst (handlePackets L Map.empty (map Some ms)) = replayed (guarded_move L) ms"
proof (induction ms rule: rev_induct)
  case Nil
  show ?case by (simp add: replayed_def fun_eq_iff)
next
  case (snoc m ms)
  then show ?case by (simp add: handlePackets_snoc handlePacket_replayed)
qed

theorem replay_guarded_witness:
  "fst (handlePackets exact_lib Map.empty
          (map Some [AddPlayer ''Bob'' 1 11 (Vec3 5 5 5), RemoveEntity 1,
                     AddPlayer ''Alice'' 1 10 (Vec3 0 0 0), MovePlayer 1 (Vec3 1 0 0),
                     MoveActorDelta 1 (Vec3 0 1 0), MoveActorAbsolute 2 (Vec3 7 7 7)])) 1 =
     Some (alice\<lparr>Position := Vec3 1 1 0\<rparr>)
   \<and> fst (handlePackets exact_lib Map.empty
          (map Some [AddPlayer ''Alice'' 1 10 (Vec3 0 0 0), MovePlayer 1 (Vec3 1 0 0),
                     MoveActorDelta 1 (Vec3 0 1 0), RemoveEntity 1])) = Map.empty"
proof -
  have a: "replayed (guarded_move exact_lib)
             [AddPlayer ''Bob'' 1 11 (Vec3 5 5 5), RemoveEntity 1,
              AddPlayer ''Alice'' 1 10 (Vec3 0 0 0), MovePlayer 1 (Vec3 1 0 0),
              MoveActorDelta 1 (Vec3 0 1 0), MoveActorAbsolute 2 (Vec3 7 7 7)] 1 =
           Some (alice\<lparr>Position := Vec3 1 1 0\<rparr>)"
    using not_ApproxEqual_step by (simp add: replayed_def alice_def FloatAdd_exact_lib)
  have b: "replayed (guarded_move exact_lib)
             [AddPlayer ''Alice'' 1 10 (Vec3 0 0 0), MovePlayer 1 (Vec3 1 0 0),
              MoveActorDelta 1 (Vec3 0 1 0), RemoveEntity 1] = Map.empty"
    by (simp add: replayed_def fun_eq_iff)
  show ?thesis
    unfolding replay_guarded using a b by simp
qed

section \<open>One record per runtime identifier\<close>

lemma handlePacket_keyed:
  assumes "\<And>i p. reg i = Some p \<Longrightarrow> EntityRuntimeID p = i"
    and "fst (handlePacket L reg pk) j = Some q"
  shows "EntityRuntimeID q = j"
proof (cases pk)
  case None
  with assms show ?thesis by simp
next
  case (Some m)
  with assms show ?thesis
    by (cases m) (auto split: option.splits if_splits)
qed

lemma handlePackets_keyed:
  assumes "\<And>i p. reg i = Some p \<Longrightarrow> EntityRuntimeID p = i"
    and "fst (handlePackets L reg pks) j = Some q"
  shows "EntityRuntimeID q = j"
  using assms
proof (induction pks arbitrary: reg)
  case Nil
  then show ?case by simp
next
  case (Cons pk pks)
  obtain reg' out where step: "handlePacket L reg pk = (reg', out)"
    by (cases "handlePacket L reg pk")
  have keyed': "\<And>i p. reg' i = Some p \<Longrightarrow> EntityRuntimeID p = i"
    using handlePacket_keyed [of reg L pk] Cons.prems(1) step by simp
  from Cons.prems(2) step have "fst (handlePackets L reg' pks) j = Some q"
    by (simp split: prod.splits)
  with Cons.IH [of reg'] keyed' show ?case by blast
qed

text \<open>
  C5. In the registry reached from the empty one by dispatching any sequence of
  messages (of every kind, nil included), two live records with the same runtime
  identifier are one record under one key: the registry is a map keyed by runtime
  identifier, and every record in it carries the key it is stored under.
\<close>

theorem one_entity_per_id:
  assumes "fst (handlePackets L Map.empty pks) i = Some p"
    and "fst (handlePackets L Map.empty pks) j = Some q"
    and "EntityRuntimeID p = EntityRuntimeID q"
  shows "i = j \<and> p = q"
proof -
  have "EntityRuntimeID p = i"
    using handlePackets_keyed [of Map.empty L pks i p] assms(1) by simp
  moreover have "EntityRuntimeID q = j"
    using handlePackets_keyed [of Map.empty L pks j q] assms(2) by simp
  ultimately have "i = j" using assms(3) by simp
  with assms(1,2) show ?thesis by simp
qed

theorem one_entity_per_id_witness:
  "fst (handlePackets exact_lib Map.empty
          [Some (AddPlayer ''Bob'' 1 11 (Vec3 5 5 5)), None, Some (AddPlayer ''Alice'' 1 10 (Vec3 0 0 0))]) 1 =
     Some alice
   \<and> EntityRuntimeID alice = EntityRuntimeID alice
   \<and> (1 :: 64 word) = 1 \<and> alice = alice"
proof -
  have h: "fst (handlePackets exact_lib Map.empty
          [Some (AddPlayer ''Bob'' 1 11 (Vec3 5 5 5)), None, Some (AddPlayer ''Alice'' 1 10 (Vec3 0 0 0))]) 1 =
     Some alice"
    by (simp add: alice_def)
  from h show ?thesis
    using one_entity_per_id [of exact_lib
        "[Some (AddPlayer ''Bob'' 1 11 (Vec3 5 5 5)), None, Some (AddPlayer ''Alice'' 1 10 (Vec3 0 0 0))]"
        1 alice 1 alice]
    by blast
qed

section \<open>The Receive Loop on a receive error\<close>

lemma rxLoop_reads:
  "rxLoop L (map Inr pks @ Inl err # rest) w =
     (case handlePackets L (players w) pks of
        (reg, out) \<Rightarrow>
          rxLoop L (Inl err # rest) (w\<lparr>players := reg, effects := effects w @ map Log out\<rparr>))"
proof (induction pks arbitrary: w)
  case Nil
  show ?case by (simp del: rxLoop.simps(2))
next
  case (Cons pk pks)
  show ?case by (simp add: Cons.IH del: rxLoop.simps(2) split: prod.splits)
qed

text \<open>
  C6. When a read fails after any number of successful reads, the Receive Loop panics
  if and only if the error unwraps to a disconnect, and then with that disconnect.
  On any other error it clears \<^verbatim>\<open>loopRunning\<close> and returns: the registry is the one the
  packets read so far produced, and the loop has logged nothing beyond its start line
  and the lines of the dispatcher before it signals the wait group.
\<close>

theorem eventRxLoop_receive_error:
  "((\<exists>e. fst (eventRxLoop L (map Inr pks @ Inl err # rest) w) = Panicked e) \<longleftrightarrow>
      (\<exists>disconnect. asDisconnect err = Some disconnect))
   \<and> (asDisconnect err = Some disconnect \<longrightarrow>
        fst (eventRxLoop L (map Inr pks @ Inl err # rest) w) = Panicked (DisconnectError disconnect))
   \<and> (asDisconnect err = None \<longrightarrow>
        fst (eventRxLoop L (map Inr pks @ Inl err # rest) w) = Returned
        \<and> \<not> loopRunning (snd (eventRxLoop L (map Inr pks @ Inl err # rest) w))
        \<and> players (snd (eventRxLoop L (map Inr pks @ Inl err # rest) w)) = fst (handlePackets L (players w) pks)
        \<and> effects (snd (eventRxLoop L (map Inr pks @ Inl err # rest) w)) =
            effects w @ Log (LogEntry InfoLevel ''RX Event loop started\<newline>'' [])
              # map Log (snd (handlePackets L (players w) pks)) @ [WgDone])"
  unfolding eventRxLoop_def rxLoop_reads
  by (cases "asDisconnect err") (simp_all split: prod.splits)

theorem eventRxLoop_receive_error_witness:
  "asDisconnect (WrappedError ''read packet'' (DisconnectError ''kicked'')) = Some ''kicked''
   \<and> fst (eventRxLoop exact_lib
             [Inr (Some (AddPlayer ''Alice'' 1 10 (Vec3 0 0 0))),
              Inl (WrappedError ''read packet'' (DisconnectError ''kicked''))] world0) =
       Panicked (DisconnectError ''kicked'')
   \<and> asDisconnect (OtherError ''use of closed network connection'') = None
   \<and> asDisconnect (DisconnectError ''kicked'') = None
   \<and> fst (eventRxLoop exact_lib
             [Inr (Some (AddPlayer ''Alice'' 1 10 (Vec3 0 0 0))),
              Inl (OtherError ''use of closed network connection'')] (world0\<lparr>loopRunning := True\<rparr>)) =
       Returned
   \<and> loopRunning (snd (eventRxLoop exact_lib
             [Inr (Some (AddPlayer ''Alice'' 1 10 (Vec3 0 0 0))),
              Inl (OtherError ''use of closed network connection'')] (world0\<lparr>loopRunning := True\<rparr>))) =
       False
   \<and> fst (eventRxLoop exact_lib [Inl (DisconnectError ''kicked'')] world0) = Returned"
proof -
  have h1: "asDisconnect (WrappedError ''read packet'' (DisconnectError ''kicked'')) = Some ''kicked''"
    by (simp add: asDisconnect_def)
  have h2: "asDisconnect (OtherError ''use of closed network connection'') = None"
    by (simp add: asDisconnect_def)
  have h3: "asDisconnect (DisconnectError ''kicked'') = None"
    by (simp add: asDisconnect_def)
  from h1 have a: "fst (eventRxLoop exact_lib
             [Inr (Some (AddPlayer ''Alice'' 1 10 (Vec3 0 0 0))),
              Inl (WrappedError ''read packet'' (DisconnectError ''kicked''))] world0) =
       Panicked (DisconnectError ''kicked'')"
    using eventRxLoop_receive_error [of exact_lib "[Some (AddPlayer ''Alice'' 1 10 (Vec3 0 0 0))]"
        "WrappedError ''read packet'' (DisconnectError ''kicked'')" "[]" world0 "''kicked''"]
    by simp
  from h2 have b: "fst (eventRxLoop exact_lib
             [Inr (Some (AddPlayer ''Alice'' 1 10 (Vec3 0 0 0))),
              Inl (OtherError ''use of closed network connection'')] (world0\<lparr>loopRunning := True\<rparr>)) =
       Returned
     \<and> loopRunning (snd (eventRxLoop exact_lib
             [Inr (Some (AddPlayer ''Alice'' 1 10 (Vec3 0 0 0))),
              Inl (OtherError ''use of closed network connection'')] (world0\<lparr>loopRunning := True\<rparr>))) =
       False"
    using eventRxLoop_receive_error [of exact_lib "[Some (AddPlayer ''Alice'' 1 10 (Vec3 0 0 0))]"
        "OtherError ''use of closed network connection''" "[]" "world0\<lparr>loopRunning := True\<rparr>" "''kicked''"]
    by simp
  from h3 have c: "fst (eventRxLoop exact_lib [Inl (DisconnectError ''kicked'')] world0) = Returned"
    using eventRxLoop_receive_error [of exact_lib "[]" "DisconnectError ''kicked''" "[]" world0 "''kicked''"]
    by simp
  from h1 h2 h3 a b c show ?thesis by blast
qed

section \<open>The Send/Heartbeat Loop and the shutdown signal\<close>

text \<open>
  C7. When a value is or becomes available on \<^verbatim>\<open>stop\<close>, the Send/Heartbeat Loop
  receives it, then closes the connection, then returns, with \<^verbatim>\<open>loopRunning\<close> cleared
  and its two deferred calls made. When no value ever comes, the loop makes no call of
  \<^verbatim>\<open>conn.Close\<close>.
\<close>

theorem eventTxLoop_shutdown:
  "(0 < stop w \<longrightarrow>
      eventTxLoop w =
        (Returned,
         w\<lparr>loopRunning := False, stop := stop w - 1,
           effects := effects w @
             [NewTicker 5000, Log (LogEntry InfoLevel ''TX Event loop started\<newline>'' []),
              Sleep 100, RecvStop, Log (LogEntry InfoLevel ''closing event loop\<newline>'' []), ConnClose,
              TickerStop, WgDone]\<rparr>))
   \<and> (stop w = 0 \<longrightarrow> ConnClose \<notin> set (drop (length (effects w)) (effects (snd (eventTxLoop w)))))"
  by (simp add: eventTxLoop_def)

theorem eventTxLoop_shutdown_witness:
  "0 < stop (world0\<lparr>stop := 1\<rparr>)
   \<and> eventTxLoop (world0\<lparr>stop := 1\<rparr>) =
       (Returned,
        \<lparr>players = Map.empty, loopRunning = False, stop = 0,
         effects =
           [NewTicker 5000, Log (LogEntry InfoLevel ''TX Event loop started\<newline>'' []),
            Sleep 100, RecvStop, Log (LogEntry InfoLevel ''closing event loop\<newline>'' []), ConnClose,
            TickerStop, WgDone]\<rparr>)
   \<and> stop world0 = 0
   \<and> ConnClose \<notin> set (drop (length (effects world0)) (effects (snd (eventTxLoop world0))))"
proof -
  have h1: "0 < stop (world0\<lparr>stop := 1\<rparr>)"
    by simp
  have h2: "stop world0 = 0"
    by (simp add: world0_def)
  from h1 have a: "eventTxLoop (world0\<lparr>stop := 1\<rparr>) =
       (Returned,
        \<lparr>players = Map.empty, loopRunning = False, stop = 0,
         effects =
           [NewTicker 5000, Log (LogEntry InfoLevel ''TX Event loop started\<newline>'' []),
            Sleep 100, RecvStop, Log (LogEntry InfoLevel ''closing event loop\<newline>'' []), ConnClose,
            TickerStop, WgDone]\<rparr>)"
    using eventTxLoop_shutdown [of "world0\<lparr>stop := 1\<rparr>"] by (simp add: world0_def)
  from h2 have b: "ConnClose \<notin> set (drop (length (effects world0)) (effects (snd (eventTxLoop world0))))"
    using eventTxLoop_shutdown [of world0] by blast
  from h1 h2 a b show ?thesis by blast
qed

text \<open>
  C8. The specification says that an iteration during which no shutdown signal arrives
  completes within the polling interval, and that the loop then checks the signal
  again. In the code the iteration sleeps for the polling interval and then waits for
  the signal alone: started with no value ever sent on \<^verbatim>\<open>stop\<close>, the loop makes its
  first sleep and stays blocked in the receive, with \<^verbatim>\<open>loopRunning\<close> still set.
\<close>

theorem eventTxLoop_no_signal:
  "eventTxLoop world0 =
     (Blocked,
      \<lparr>players = Map.empty, loopRunning = True, stop = 0,
       effects = [NewTicker 5000, Log (LogEntry InfoLevel ''TX Event loop started\<newline>'' []), Sleep 100]\<rparr>)"
  by (simp add: eventTxLoop_def world0_def)

section \<open>The Session Supervisor's retries\<close>

lemma is_error_log_dialError: "is_error_log (Log (dialError L err))"
  by (simp add: dialError_def split: option.splits)

lemma dialLoop_fails_then_succeeds:
  "dialLoop L address (map Inl errs @ Inr conn # rest) =
     (Some conn, concat (map (attempt L address) errs) @ [Dial address])"
  by (induction errs) (simp_all add: attempt_def)

lemma dialLoop_fails:
  "dialLoop L address (map Inl errs) = (None, concat (map (attempt L address) errs) @ [Dial address])"
  by (induction errs) (simp_all add: attempt_def)

lemma filter_attempts:
  "filter is_error_log (concat (map (attempt L address) errs)) = map (\<lambda>err. Log (dialError L err)) errs"
  "filter is_sleep (concat (map (attempt L address) errs)) = replicate (length errs) (Sleep 1000)"
  "filter is_go (concat (map (attempt L address) errs)) = []"
  "filter is_dial (concat (map (attempt L address) errs)) = replicate (length errs) (Dial address)"
  by (induction errs) (simp_all add: attempt_def is_error_log_dialError)

text \<open>
  C9. Once the configuration and the token are there: when the first \<open>n\<close> calls of
  \<^verbatim>\<open>Dial\<close> fail with the errors \<open>errs\<close> and the next one succeeds, \<^verbatim>\<open>main\<close> logs one
  error line per failed call (the line of that call's error, in order), sleeps one
  second after each failed call and at no other time, dials \<open>n + 1\<close> times, and then
  starts the interrupt handler, the Receive Loop and the Send/Heartbeat Loop, each
  once, and waits for the loops. This holds for every \<open>n\<close>; and after \<open>n\<close> failed calls
  with no success yet, \<^verbatim>\<open>main\<close> has dialled once more and started no task.
\<close>

theorem main_retries:
  fixes L :: "'f lib"
  assumes "loadConfig E = Inr address"
    and "(acquireToken E :: 'f log_entry + nat) = Inr tkn"
  shows "(dials E = map Inl errs @ Inr conn # rest \<longrightarrow>
            fst (main L E) = Waiting
            \<and> filter is_error_log (snd (main L E)) = map (\<lambda>err. Log (dialError L err)) errs
            \<and> filter is_sleep (snd (main L E)) = replicate (length errs) (Sleep 1000)
            \<and> filter is_dial (snd (main L E)) = replicate (Suc (length errs)) (Dial address)
            \<and> filter is_go (snd (main L E)) = [Go InterruptHandler, Go (RxLoop conn), Go (TxLoop conn)]
            \<and> snd (main L E) =
                [Log (LogEntry InfoLevel ''Loading configuration\<newline>'' []),
                 Log (LogEntry InfoLevel ''Loading Xbox Token\<newline>'' []),
                 Log (LogEntry InfoLevel ''Connecting to %s\<newline>'' [ArgString address])] @
                concat (map (attempt L address) errs) @
                [Dial address, WgAdd 2, SignalNotify, Go InterruptHandler,
                 Log (LogEntry InfoLevel ''Bot started and connected\<newline>'' []),
                 Go (RxLoop conn), Go (TxLoop conn), WgWait])
       \<and> (dials E = map Inl errs \<longrightarrow>
            fst (main L E) = Blocked
            \<and> filter is_dial (snd (main L E)) = replicate (Suc (length errs)) (Dial address)
            \<and> filter is_go (snd (main L E)) = [])"
  using assms
  by (simp add: main_def dialLoop_fails_then_succeeds dialLoop_fails filter_attempts replicate_append_same)

theorem main_retries_witness:
  "loadConfig inputs0 = Inr ''play.example.org:19132''
   \<and> (acquireToken inputs0 :: rat log_entry + nat) = Inr 7
   \<and> dials inputs0 =
       map Inl [WrappedError ''dial'' (DisconnectError ''disconnectionScreen.serverFull''), OtherError ''timeout'']
       @ Inr 3 # []
   \<and> fst (main exact_lib inputs0) = Waiting
   \<and> filter is_error_log (snd (main exact_lib inputs0)) =
       [Log (LogEntry ErrorLevel ''Disconnected: %s\<newline>'' [ArgString ''disconnectionScreen.serverFull'']),
        Log (LogEntry ErrorLevel ''Error handling connection: %s\<newline>'' [ArgError (OtherError ''timeout'')])]
   \<and> filter is_sleep (snd (main exact_lib inputs0)) = [Sleep 1000, Sleep 1000]
   \<and> filter is_go (snd (main exact_lib inputs0)) = [Go InterruptHandler, Go (RxLoop 3), Go (TxLoop 3)]
   \<and> dials (inputs0\<lparr>dials := [Inl (OtherError ''timeout'')]\<rparr>) = map Inl [OtherError ''timeout'']
   \<and> fst (main exact_lib (inputs0\<lparr>dials := [Inl (OtherError ''timeout'')]\<rparr>)) = Blocked
   \<and> filter is_dial (snd (main exact_lib (inputs0\<lparr>dials := [Inl (OtherError ''timeout'')]\<rparr>))) =
       [Dial ''play.example.org:19132'', Dial ''play.example.org:19132'']"
proof -
  have c: "loadConfig inputs0 = Inr ''play.example.org:19132''"
    by (simp add: inputs0_def)
  have t: "(acquireToken inputs0 :: rat log_entry + nat) = Inr 7"
    by (simp add: inputs0_def acquireToken_def)
  have d: "dials inputs0 =
       map Inl [WrappedError ''dial'' (DisconnectError ''disconnectionScreen.serverFull''), OtherError ''timeout'']
       @ Inr 3 # []"
    by (simp add: inputs0_def)
  have c': "loadConfig (inputs0\<lparr>dials := [Inl (OtherError ''timeout'')]\<rparr>) = Inr ''play.example.org:19132''"
    by (simp add: inputs0_def)
  have t': "(acquireToken (inputs0\<lparr>dials := [Inl (OtherError ''timeout'')]\<rparr>) :: rat log_entry + nat) = Inr 7"
    by (simp add: inputs0_def acquireToken_def)
  have d': "dials (inputs0\<lparr>dials := [Inl (OtherError ''timeout'')]\<rparr>) = map Inl [OtherError ''timeout'']"
    by simp
  have e1: "dialError exact_lib (WrappedError ''dial'' (DisconnectError ''disconnectionScreen.serverFull'')) =
      LogEntry ErrorLevel ''Disconnected: %s\<newline>'' [ArgString ''disconnectionScreen.serverFull'']"
    by (simp add: dialError_def asDisconnect_def exact_lib_def)
  have e2: "dialError exact_lib (OtherError ''timeout'') =
      LogEntry ErrorLevel ''Error handling connection: %s\<newline>'' [ArgError (OtherError ''timeout'')]"
    by (simp add: dialError_def asDisconnect_def)
  from c t d have a: "fst (main exact_lib inputs0) = Waiting
     \<and> filter is_error_log (snd (main exact_lib inputs0)) =
       [Log (LogEntry ErrorLevel ''Disconnected: %s\<newline>'' [ArgString ''disconnectionScreen.serverFull'']),
        Log (LogEntry ErrorLevel ''Error handling connection: %s\<newline>'' [ArgError (OtherError ''timeout'')])]
     \<and> filter is_sleep (snd (main exact_lib inputs0)) = [Sleep 1000, Sleep 1000]
     \<and> filter is_go (snd (main exact_lib inputs0)) = [Go InterruptHandler, Go (RxLoop 3), Go (TxLoop 3)]"
    using main_retries [of inputs0 "''play.example.org:19132''" 7
        "[WrappedError ''dial'' (DisconnectError ''disconnectionScreen.serverFull''), OtherError ''timeout'']"
        3 "[]" exact_lib]
    by (simp add: e1 e2 attempt_def numeral_2_eq_2)
  from c' t' d' have b: "fst (main exact_lib (inputs0\<lparr>dials := [Inl (OtherError ''timeout'')]\<rparr>)) = Blocked
     \<and> filter is_dial (snd (main exact_lib (inputs0\<lparr>dials := [Inl (OtherError ''timeout'')]\<rparr>))) =
       [Dial ''play.example.org:19132'', Dial ''play.example.org:19132'']"
    using main_retries [of "inputs0\<lparr>dials := [Inl (OtherError ''timeout'')]\<rparr>" "''play.example.org:19132''" 7
        "[OtherError ''timeout'']" 3 "[]" exact_lib]
    by (simp add: e2 attempt_def numeral_2_eq_2)
  from c t d d' a b show ?thesis by blast
qed

end
